theory Spec2Isabelle
  imports Main "HOL-Library.Word"
begin

section \<open>RediScan: a shallow embedding of the list inspector\<close>

text \<open>
  The repository holds two versions of the same Go program:
  \<^item> \<^verbatim>\<open>src/main.go\<close>: \<^verbatim>\<open>lindexHandler\<close> parses the index first and always fetches
    one element; \<^verbatim>\<open>getAvailableLists\<close> returns key names;
  \<^item> \<^verbatim>\<open>src/unnamed/part_000\<close>: \<^verbatim>\<open>lindexHandler\<close> defaults a missing index to
    the tail and preloads small lists; \<^verbatim>\<open>getAvailableLists\<close> returns names and sizes.
  \<^verbatim>\<open>prettyPrintJSON\<close> is the same text in both files.
  The definitions taken from \<^verbatim>\<open>part_000\<close> carry the source's names; those
  taken from \<^verbatim>\<open>main.go\<close> carry the suffix \<open>_main\<close>.
\<close>

subsection \<open>Go's basic types\<close>

text \<open>Go's \<^verbatim>\<open>error\<close> is represented by its message; \<^verbatim>\<open>int64\<close> and
  \<^verbatim>\<open>uint64\<close> are 64-bit words, read with \<open>sint\<close> and compared with \<open><s\<close>
  and \<open>\<le>s\<close> where the source compares signed values.\<close>

type_synonym error = string
type_synonym int64 = "64 word"

subsection \<open>\<^verbatim>\<open>strconv.ParseInt(s, 10, 64)\<close>\<close>

text \<open>
  The handlers call the standard library's \<^verbatim>\<open>strconv.ParseInt(indexStr, 10, 64)\<close>.
  It is modelled after the library's text for base 10 and bit size 64: an empty
  string is a syntax error, one leading sign is picked off, every other byte
  must be a decimal digit (no underscore, since the base is given), and a
  value outside \<open>- 2 ^ 63 .. 2 ^ 63 - 1\<close> is a range error.
\<close>

datatype NumError = ErrSyntax | ErrRange

fun ParseUint_loop :: "string \<Rightarrow> int \<Rightarrow> NumError + int" where
  "ParseUint_loop [] n = Inr n"
| "ParseUint_loop (c # cs) n =
     (if \<not> (48 \<le> (of_char c :: int) \<and> (of_char c :: int) \<le> 57) then Inl ErrSyntax
      else if n \<ge> (2 ^ 64 - 1) div 10 + 1 then Inl ErrRange
      else let n1 = n * 10 + ((of_char c :: int) - 48)
           in if n1 > 2 ^ 64 - 1 then Inl ErrRange
              else ParseUint_loop cs n1)"

definition ParseUint :: "string \<Rightarrow> NumError + int" where
  "ParseUint s = (if s = [] then Inl ErrSyntax else ParseUint_loop s 0)"

definition ParseInt_unsigned :: "bool \<Rightarrow> string \<Rightarrow> NumError + int64" where
  "ParseInt_unsigned neg s =
     (case ParseUint s of
        Inl err \<Rightarrow> Inl err
      | Inr un \<Rightarrow>
          if \<not> neg \<and> un \<ge> 2 ^ 63 then Inl ErrRange
          else if neg \<and> un > 2 ^ 63 then Inl ErrRange
          else Inr (if neg then - (word_of_int un) else word_of_int un))"

fun ParseInt :: "string \<Rightarrow> NumError + int64" where
  "ParseInt [] = Inl ErrSyntax"
| "ParseInt (c # cs) =
     (if c = CHR ''+'' then ParseInt_unsigned False cs
      else if c = CHR ''-'' then ParseInt_unsigned True cs
      else ParseInt_unsigned False (c # cs))"

subsection \<open>\<^verbatim>\<open>prettyPrintJSON\<close>\<close>

text \<open>
  \<^verbatim>\<open>prettyPrintJSON\<close> calls \<^verbatim>\<open>json.Unmarshal\<close> (into an \<^verbatim>\<open>interface{}\<close>) and
  \<^verbatim>\<open>json.MarshalIndent(jsonData, "", "  ")\<close> of Go's \<^verbatim>\<open>encoding/json\<close>. The
  package is not part of the repository: it is a parameter of the model, a
  record of the two functions, each returning its error or its result. The
  type \<open>'j\<close> stands for what \<^verbatim>\<open>Unmarshal\<close> stores in the \<^verbatim>\<open>interface{}\<close>.
\<close>

record 'j json =
  Unmarshal :: "string \<Rightarrow> error + 'j"
  MarshalIndent :: "'j \<Rightarrow> error + string"

definition prettyPrintJSON :: "'j json \<Rightarrow> string \<Rightarrow> string" where
  "prettyPrintJSON json val =
     (case Unmarshal json val of
        Inl err \<Rightarrow> val
      | Inr jsonData \<Rightarrow>
          (case MarshalIndent json jsonData of
             Inl err \<Rightarrow> val
           | Inr prettyJSON \<Rightarrow> prettyJSON))"

text \<open>
  The values \<^verbatim>\<open>Unmarshal\<close> stores in an \<^verbatim>\<open>interface{}\<close>: \<^verbatim>\<open>nil\<close>, \<^verbatim>\<open>bool\<close>,
  \<^verbatim>\<open>float64\<close> (kept as its 64 bits), \<^verbatim>\<open>string\<close>, \<^verbatim>\<open>[]interface{}\<close> and
  \<^verbatim>\<open>map[string]interface{}\<close> (kept as its entries in key order, the order in
  which \<^verbatim>\<open>MarshalIndent\<close> writes them).
\<close>

datatype jsonData =
    JNil
  | JBool bool
  | JFloat64 "64 word"
  | JString string
  | JSlice "jsonData list"
  | JMap "(string \<times> jsonData) list"

text \<open>
  An excerpt of \<^verbatim>\<open>encoding/json\<close> for the examples: its answers on three
  inputs. \<^verbatim>\<open>not json\<close> is rejected; the compact and the indented text of
  one object decode to the same map, which is written back indented by two
  spaces. Any other input is outside the excerpt and is answered by an error.
\<close>

definition compact_ok :: string where
  \<open>compact_ok = ''{"ok":true}''\<close>

definition indented_ok :: string where
  \<open>indented_ok = ''{\<newline>  "ok": true\<newline>}''\<close>

definition json_excerpt :: "jsonData json" where
  "json_excerpt =
     \<lparr> Unmarshal = (\<lambda>s.
         if s = compact_ok \<or> s = indented_ok then Inr (JMap [(''ok'', JBool True)])
         else if s = ''not json'' then Inl ''invalid character''
         else Inl ''outside the excerpt''),
       MarshalIndent = (\<lambda>v.
         if v = JMap [(''ok'', JBool True)] then Inr indented_ok
         else Inl ''outside the excerpt'') \<rparr>"

subsection \<open>The store seen by one navigation request\<close>

text \<open>
  \<^verbatim>\<open>redisClient\<close> is the go-redis client: each command returns its error or
  its result. A request issues each command at most once, so the store's
  answers during one request are functions of the command's arguments.
\<close>

record redis_Client =
  Type :: "string \<Rightarrow> error + string"
  LLen :: "string \<Rightarrow> error + int64"
  LRange :: "string \<Rightarrow> int64 \<Rightarrow> int64 \<Rightarrow> error + string list"
  LIndex :: "string \<Rightarrow> int64 \<Rightarrow> error + string"

text \<open>The commands a request sends to the store, in the order it sends them.\<close>

datatype command =
    Cmd_Type string
  | Cmd_LLen string
  | Cmd_LRange string int64 int64
  | Cmd_LIndex string int64

text \<open>
  What the handler renders: the render function it calls, with the
  arguments of the call (the HTML templates are not modelled). The text of a
  not-found or error page is a \<^verbatim>\<open>fmt.Sprintf\<close> of a fixed format and its
  arguments; a \<open>message\<close> is the format together with the arguments.
  \<open>renderResult\<close> is called by \<^verbatim>\<open>main.go\<close> only, the two other result pages
  by \<^verbatim>\<open>part_000\<close> only.
\<close>

datatype message =
    MissingKey \<comment> \<open>\<^verbatim>\<open>Missing 'key' parameter\<close>\<close>
  | InvalidIndex \<comment> \<open>\<^verbatim>\<open>Invalid 'index' parameter\<close>\<close>
  | KeyDoesNotExist string \<comment> \<open>\<^verbatim>\<open>Key '%s' does not exist\<close>\<close>
  | KeyIsNotAList string string \<comment> \<open>\<^verbatim>\<open>Key '%s' is not a list (type: %s)\<close>\<close>
  | ListIsEmpty string \<comment> \<open>\<^verbatim>\<open>List '%s' is empty\<close>\<close>
  | IndexOutOfBounds int64 int64 \<comment> \<open>\<^verbatim>\<open>Index %d out of bounds (list length: %d)\<close>\<close>
  | ErrorCheckingKey error \<comment> \<open>\<^verbatim>\<open>Error checking key: %v\<close>\<close>
  | ErrorGettingListLength error \<comment> \<open>\<^verbatim>\<open>Error getting list length: %v\<close>\<close>
  | ErrorGettingListElements error \<comment> \<open>\<^verbatim>\<open>Error getting list elements: %v\<close>\<close>
  | ErrorGettingElement error \<comment> \<open>\<^verbatim>\<open>Error getting element: %v\<close>\<close>

datatype response =
    renderNotFound message \<comment> \<open>HTTP status 404\<close>
  | renderError message \<comment> \<open>HTTP status 500\<close>
  | renderResultWithPreload string int64 int64 "string list"
  | renderResultWithoutPreload string int64 int64 string
  | renderResult string int64 int64 string

subsection \<open>\<^verbatim>\<open>lindexHandler\<close> of \<^verbatim>\<open>part_000\<close> (lines 303 to 392)\<close>

text \<open>
  The request is its two query parameters, \<^verbatim>\<open>key\<close> and \<^verbatim>\<open>index\<close>, each the
  empty string when absent. The handler returns the commands it sent and the
  page it rendered. \<^verbatim>\<open>maxPreloadSize\<close> is the global of that name, converted
  by \<^verbatim>\<open>int64(maxPreloadSize)\<close>.
\<close>

definition lindexHandler ::
  "'j json \<Rightarrow> redis_Client \<Rightarrow> int64 \<Rightarrow> string \<Rightarrow> string \<Rightarrow> command list \<times> response" where
  "lindexHandler json redisClient maxPreloadSize key indexStr =
     (if key = [] then ([], renderNotFound MissingKey)
      else case Type redisClient key of
        Inl err \<Rightarrow> ([Cmd_Type key], renderError (ErrorCheckingKey err))
      | Inr keyType \<Rightarrow>
          if keyType = ''none'' then ([Cmd_Type key], renderNotFound (KeyDoesNotExist key))
          else if keyType \<noteq> ''list'' then
            ([Cmd_Type key], renderNotFound (KeyIsNotAList key keyType))
          else case LLen redisClient key of
            Inl err \<Rightarrow> ([Cmd_Type key, Cmd_LLen key], renderError (ErrorGettingListLength err))
          | Inr llen \<Rightarrow>
              if llen = 0 then ([Cmd_Type key, Cmd_LLen key], renderNotFound (ListIsEmpty key))
              else case (if indexStr = [] then Inr (llen - 1) else ParseInt indexStr) of
                Inl err \<Rightarrow> ([Cmd_Type key, Cmd_LLen key], renderNotFound InvalidIndex)
              | Inr index \<Rightarrow>
                  if index <s 0 \<or> llen \<le>s index then
                    ([Cmd_Type key, Cmd_LLen key], renderNotFound (IndexOutOfBounds index llen))
                  else if llen \<le>s maxPreloadSize then
                    (case LRange redisClient key 0 (- 1) of
                       Inl err \<Rightarrow>
                         ([Cmd_Type key, Cmd_LLen key, Cmd_LRange key 0 (- 1)],
                          renderError (ErrorGettingListElements err))
                     | Inr allValues \<Rightarrow>
                         ([Cmd_Type key, Cmd_LLen key, Cmd_LRange key 0 (- 1)],
                          renderResultWithPreload key index llen
                            (map (prettyPrintJSON json) allValues)))
                  else
                    (case LIndex redisClient key index of
                       Inl err \<Rightarrow>
                         ([Cmd_Type key, Cmd_LLen key, Cmd_LIndex key index],
                          renderError (ErrorGettingElement err))
                     | Inr val \<Rightarrow>
                         ([Cmd_Type key, Cmd_LLen key, Cmd_LIndex key index],
                          renderResultWithoutPreload key index llen
                            (prettyPrintJSON json val))))"

subsection \<open>\<^verbatim>\<open>lindexHandler\<close> of \<^verbatim>\<open>main.go\<close> (lines 265 to 327)\<close>

definition lindexHandler_main ::
  "'j json \<Rightarrow> redis_Client \<Rightarrow> string \<Rightarrow> string \<Rightarrow> command list \<times> response" where
  "lindexHandler_main json redisClient key indexStr =
     (if key = [] then ([], renderNotFound MissingKey)
      else case ParseInt indexStr of
        Inl err \<Rightarrow> ([], renderNotFound InvalidIndex)
      | Inr index \<Rightarrow>
          (case Type redisClient key of
             Inl err \<Rightarrow> ([Cmd_Type key], renderError (ErrorCheckingKey err))
           | Inr keyType \<Rightarrow>
               if keyType = ''none'' then ([Cmd_Type key], renderNotFound (KeyDoesNotExist key))
               else if keyType \<noteq> ''list'' then
                 ([Cmd_Type key], renderNotFound (KeyIsNotAList key keyType))
               else case LLen redisClient key of
                 Inl err \<Rightarrow> ([Cmd_Type key, Cmd_LLen key], renderError (ErrorGettingListLength err))
               | Inr llen \<Rightarrow>
                   if llen = 0 then ([Cmd_Type key, Cmd_LLen key], renderNotFound (ListIsEmpty key))
                   else if index <s 0 \<or> llen \<le>s index then
                     ([Cmd_Type key, Cmd_LLen key], renderNotFound (IndexOutOfBounds index llen))
                   else
                     (case LIndex redisClient key index of
                        Inl err \<Rightarrow>
                          ([Cmd_Type key, Cmd_LLen key, Cmd_LIndex key index],
                           renderError (ErrorGettingElement err))
                      | Inr val \<Rightarrow>
                          ([Cmd_Type key, Cmd_LLen key, Cmd_LIndex key index],
                           renderResult key index llen (prettyPrintJSON json val)))))"

text \<open>
  Lines 342 to 352 of \<^verbatim>\<open>part_000\<close> on their own: the index a request resolves
  to, given the length the store reported. The theorems use it to name the
  resolved index; \<open>lindexHandler\<close> above has the same text inline.
\<close>

definition resolveIndex :: "string \<Rightarrow> int64 \<Rightarrow> NumError + int64" where
  "resolveIndex indexStr llen = (if indexStr = [] then Inr (llen - 1) else ParseInt indexStr)"

text \<open>A page rendered by \<^verbatim>\<open>renderNotFound\<close> (HTTP status 404).\<close>

definition isNotFound :: "response \<Rightarrow> bool" where
  "isNotFound r = (case r of renderNotFound m \<Rightarrow> True | _ \<Rightarrow> False)"

text \<open>A store holding the list \<^verbatim>\<open>mylist\<close> = c, b, a and the string \<^verbatim>\<open>stringkey\<close>.\<close>

definition store_mylist :: redis_Client where
  "store_mylist =
     \<lparr> Type = (\<lambda>k. if k = ''mylist'' then Inr ''list''
                    else if k = ''stringkey'' then Inr ''string'' else Inr ''none''),
       LLen = (\<lambda>k. if k = ''mylist'' then Inr 3 else Inr 0),
       LRange = (\<lambda>k start stop.
                  if k = ''mylist'' \<and> start = 0 \<and> stop = - 1 then Inr [''c'', ''b'', ''a'']
                  else Inr []),
       LIndex = (\<lambda>k i. if k = ''mylist'' \<and> i = 0 then Inr ''c''
                      else if k = ''mylist'' \<and> i = 1 then Inr ''b''
                      else if k = ''mylist'' \<and> i = 2 then Inr ''a''
                      else Inl ''redis: nil'') \<rparr>"

subsection \<open>The store seen by the discovery scan\<close>




subsection \<open>\<^verbatim>\<open>getAvailableLists\<close> of \<^verbatim>\<open>part_000\<close> (lines 80 to 149)\<close>






subsection \<open>\<^verbatim>\<open>getAvailableLists\<close> of \<^verbatim>\<open>main.go\<close> (lines 73 to 120)\<close>





subsection \<open>\<^verbatim>\<open>indexHandler\<close>, the caller of \<^verbatim>\<open>getAvailableLists\<close>\<close>










section \<open>The value formatter\<close>

text \<open>
  The facts below hold for every \<^verbatim>\<open>encoding/json\<close>, that is for every pair of
  functions \<open>Unmarshal\<close> and \<open>MarshalIndent\<close>. Where a claim needs a property of
  the package itself, the property is a hypothesis of the theorem, stated at
  the input in question.
\<close>

lemma prettyPrintJSON_Inl: "Unmarshal json s = Inl err \<Longrightarrow> prettyPrintJSON json s = s"
  by (simp add: prettyPrintJSON_def)

lemma prettyPrintJSON_Inr_Inl:
  "Unmarshal json s = Inr v \<Longrightarrow> MarshalIndent json v = Inl err \<Longrightarrow> prettyPrintJSON json s = s"
  by (simp add: prettyPrintJSON_def)

lemma prettyPrintJSON_Inr_Inr:
  "Unmarshal json s = Inr v \<Longrightarrow> MarshalIndent json v = Inr t \<Longrightarrow> prettyPrintJSON json s = t"
  by (simp add: prettyPrintJSON_def)

lemma json_excerpt_simps:
  "Unmarshal json_excerpt ''not json'' = Inl ''invalid character''"
  "Unmarshal json_excerpt compact_ok = Inr (JMap [(''ok'', JBool True)])"
  "Unmarshal json_excerpt indented_ok = Inr (JMap [(''ok'', JBool True)])"
  "MarshalIndent json_excerpt (JMap [(''ok'', JBool True)]) = Inr indented_ok"
  by (simp_all add: json_excerpt_def compact_ok_def indented_ok_def)

text \<open>
  C6: for every input string that \<^verbatim>\<open>json.Unmarshal\<close> rejects (a string that is
  not valid JSON), \<^verbatim>\<open>prettyPrintJSON\<close> returns the input itself, unchanged.
\<close>

theorem prettyPrintJSON_invalid_unchanged:
  "Unmarshal json s = Inl err \<Longrightarrow> prettyPrintJSON json s = s"
  by (simp add: prettyPrintJSON_def)

theorem prettyPrintJSON_invalid_unchanged_witness:
  "Unmarshal json_excerpt ''not json'' = Inl ''invalid character''
   \<and> prettyPrintJSON json_excerpt ''not json'' = ''not json''"
proof -
  have h: "Unmarshal json_excerpt ''not json'' = Inl ''invalid character''"
    by (rule json_excerpt_simps)
  show ?thesis
    using h prettyPrintJSON_invalid_unchanged [OF h] by simp
qed

section \<open>The list navigator\<close>

subsection \<open>The stages of \<^verbatim>\<open>lindexHandler\<close>\<close>

lemma ParseInt_nonempty: "ParseInt s = Inr i \<Longrightarrow> s \<noteq> []"
  by (cases s) simp_all

lemma sless_total: "\<not> (i::int64) <s 0 \<Longrightarrow> 0 \<le>s i"
  by (simp add: word_sle_eq word_sless_alt)

lemma sle_total: "\<not> (l::int64) \<le>s i \<Longrightarrow> i <s l"
  by (simp add: word_sle_eq word_sless_alt)

lemma stage_cases [case_names missing_key type_error not_list llen_error empty
    invalid_index out_of_bounds preload single]:
  fixes rc :: redis_Client and key indexStr :: string and M :: int64
  obtains "key = []"
  | err where "key \<noteq> []" "Type rc key = Inl err"
  | keyType where "key \<noteq> []" "Type rc key = Inr keyType" "keyType \<noteq> ''list''"
  | err where "key \<noteq> []" "Type rc key = Inr ''list''" "LLen rc key = Inl err"
  | "key \<noteq> []" "Type rc key = Inr ''list''" "LLen rc key = Inr 0"
  | llen err where "key \<noteq> []" "Type rc key = Inr ''list''" "LLen rc key = Inr llen" "llen \<noteq> 0"
      "indexStr \<noteq> []" "ParseInt indexStr = Inl err"
  | llen index where "key \<noteq> []" "Type rc key = Inr ''list''" "LLen rc key = Inr llen" "llen \<noteq> 0"
      "resolveIndex indexStr llen = Inr index" "index <s 0 \<or> llen \<le>s index"
  | llen index where "key \<noteq> []" "Type rc key = Inr ''list''" "LLen rc key = Inr llen" "llen \<noteq> 0"
      "resolveIndex indexStr llen = Inr index" "0 \<le>s index" "index <s llen" "llen \<le>s M"
  | llen index where "key \<noteq> []" "Type rc key = Inr ''list''" "LLen rc key = Inr llen" "llen \<noteq> 0"
      "resolveIndex indexStr llen = Inr index" "0 \<le>s index" "index <s llen" "M <s llen"
proof (cases "key = []")
  case True then show ?thesis using that(1) by blast
next
  case k: False
  show ?thesis
  proof (cases "Type rc key")
    case (Inl err) then show ?thesis using k that(2) by blast
  next
    case t: (Inr keyType)
    show ?thesis
    proof (cases "keyType = ''list''")
      case False then show ?thesis using k t that(3) by blast
    next
      case True
      then have t': "Type rc key = Inr ''list''" using t by simp
      show ?thesis
      proof (cases "LLen rc key")
        case (Inl err) then show ?thesis using k t' that(4) by blast
      next
        case l: (Inr llen)
        show ?thesis
        proof (cases "llen = 0")
          case True then show ?thesis using k t' l that(5) by blast
        next
          case nz: False
          have "(\<exists>err. indexStr \<noteq> [] \<and> ParseInt indexStr = Inl err) \<or> (\<exists>index. resolveIndex indexStr llen = Inr index)"
            by (cases "ParseInt indexStr") (auto simp add: resolveIndex_def)
          then show ?thesis
          proof
            assume "\<exists>err. indexStr \<noteq> [] \<and> ParseInt indexStr = Inl err"
            then show ?thesis using k t' l nz that(6) by blast
          next
            assume "\<exists>index. resolveIndex indexStr llen = Inr index"
            then obtain index where r: "resolveIndex indexStr llen = Inr index" ..
            show ?thesis
            proof (cases "index <s 0 \<or> llen \<le>s index")
              case True then show ?thesis using k t' l nz r that(7) by blast
            next
              case False
              then have b: "0 \<le>s index" "index <s llen"
                using sless_total sle_total by blast+
              show ?thesis
              proof (cases "llen \<le>s M")
                case True then show ?thesis using k t' l nz r b that(8) by blast
              next
                case False
                then have "M <s llen" by (rule sle_total)
                then show ?thesis using k t' l nz r b that(9) by blast
              qed
            qed
          qed
        qed
      qed
    qed
  qed
qed


lemma lindexHandler_missing_key:
  "key = [] \<Longrightarrow> lindexHandler json rc M key indexStr = ([], renderNotFound MissingKey)"
  by (simp add: lindexHandler_def)

lemma lindexHandler_type_error:
  "key \<noteq> [] \<Longrightarrow> Type rc key = Inl err \<Longrightarrow>
   lindexHandler json rc M key indexStr = ([Cmd_Type key], renderError (ErrorCheckingKey err))"
  by (simp add: lindexHandler_def)

lemma lindexHandler_not_list:
  "key \<noteq> [] \<Longrightarrow> Type rc key = Inr keyType \<Longrightarrow> keyType \<noteq> ''list'' \<Longrightarrow>
   lindexHandler json rc M key indexStr =
     ([Cmd_Type key],
      renderNotFound (if keyType = ''none'' then KeyDoesNotExist key
                      else KeyIsNotAList key keyType))"
  by (simp add: lindexHandler_def)

lemma lindexHandler_llen_error:
  "key \<noteq> [] \<Longrightarrow> Type rc key = Inr ''list'' \<Longrightarrow> LLen rc key = Inl err \<Longrightarrow>
   lindexHandler json rc M key indexStr =
     ([Cmd_Type key, Cmd_LLen key], renderError (ErrorGettingListLength err))"
  by (simp add: lindexHandler_def)

lemma lindexHandler_empty:
  "key \<noteq> [] \<Longrightarrow> Type rc key = Inr ''list'' \<Longrightarrow> LLen rc key = Inr 0 \<Longrightarrow>
   lindexHandler json rc M key indexStr =
     ([Cmd_Type key, Cmd_LLen key], renderNotFound (ListIsEmpty key))"
  by (simp add: lindexHandler_def)

lemma lindexHandler_invalid_index:
  "key \<noteq> [] \<Longrightarrow> Type rc key = Inr ''list'' \<Longrightarrow> LLen rc key = Inr llen \<Longrightarrow> llen \<noteq> 0 \<Longrightarrow>
   indexStr \<noteq> [] \<Longrightarrow> ParseInt indexStr = Inl err \<Longrightarrow>
   lindexHandler json rc M key indexStr =
     ([Cmd_Type key, Cmd_LLen key], renderNotFound InvalidIndex)"
  by (simp add: lindexHandler_def)

lemma lindexHandler_out_of_bounds:
  "key \<noteq> [] \<Longrightarrow> Type rc key = Inr ''list'' \<Longrightarrow> LLen rc key = Inr llen \<Longrightarrow> llen \<noteq> 0 \<Longrightarrow>
   resolveIndex indexStr llen = Inr index \<Longrightarrow> index <s 0 \<or> llen \<le>s index \<Longrightarrow>
   lindexHandler json rc M key indexStr =
     ([Cmd_Type key, Cmd_LLen key], renderNotFound (IndexOutOfBounds index llen))"
  by (simp add: lindexHandler_def resolveIndex_def)

lemma in_bounds: "0 \<le>s (index::int64) \<Longrightarrow> index <s llen \<Longrightarrow> \<not> (index <s 0 \<or> llen \<le>s index)"
  by (simp add: word_sle_eq word_sless_alt)

lemma lindexHandler_preload:
  "key \<noteq> [] \<Longrightarrow> Type rc key = Inr ''list'' \<Longrightarrow> LLen rc key = Inr llen \<Longrightarrow> llen \<noteq> 0 \<Longrightarrow>
   resolveIndex indexStr llen = Inr index \<Longrightarrow> 0 \<le>s index \<Longrightarrow> index <s llen \<Longrightarrow>
   llen \<le>s M \<Longrightarrow>
   lindexHandler json rc M key indexStr =
     ([Cmd_Type key, Cmd_LLen key, Cmd_LRange key 0 (- 1)],
      case LRange rc key 0 (- 1) of
        Inl err \<Rightarrow> renderError (ErrorGettingListElements err)
      | Inr allValues \<Rightarrow>
          renderResultWithPreload key index llen (map (prettyPrintJSON json) allValues))"
  using in_bounds[of index llen]
  by (simp add: lindexHandler_def resolveIndex_def split: sum.splits)

lemma lindexHandler_single:
  "key \<noteq> [] \<Longrightarrow> Type rc key = Inr ''list'' \<Longrightarrow> LLen rc key = Inr llen \<Longrightarrow> llen \<noteq> 0 \<Longrightarrow>
   resolveIndex indexStr llen = Inr index \<Longrightarrow> 0 \<le>s index \<Longrightarrow> index <s llen \<Longrightarrow>
   M <s llen \<Longrightarrow>
   lindexHandler json rc M key indexStr =
     ([Cmd_Type key, Cmd_LLen key, Cmd_LIndex key index],
      case LIndex rc key index of
        Inl err \<Rightarrow> renderError (ErrorGettingElement err)
      | Inr val \<Rightarrow> renderResultWithoutPreload key index llen (prettyPrintJSON json val))"
proof -
  assume a: "key \<noteq> []" "Type rc key = Inr ''list''" "LLen rc key = Inr llen" "llen \<noteq> 0"
    "resolveIndex indexStr llen = Inr index" "0 \<le>s index" "index <s llen" "M <s llen"
  have "\<not> llen \<le>s M" using a(8) by (simp add: word_sle_eq word_sless_alt)
  then show ?thesis
    using a(1-5) in_bounds[OF a(6,7)]
    by (simp add: lindexHandler_def resolveIndex_def split: sum.splits)
qed

lemmas lindexHandler_stages =
  lindexHandler_missing_key lindexHandler_type_error lindexHandler_not_list
  lindexHandler_llen_error lindexHandler_empty lindexHandler_invalid_index
  lindexHandler_out_of_bounds lindexHandler_preload lindexHandler_single

lemma order_trace:
  "fst (lindexHandler json rc M key indexStr) = []
   \<or> fst (lindexHandler json rc M key indexStr) = [Cmd_Type key]
   \<or> fst (lindexHandler json rc M key indexStr) = [Cmd_Type key, Cmd_LLen key]
   \<or> fst (lindexHandler json rc M key indexStr) = [Cmd_Type key, Cmd_LLen key, Cmd_LRange key 0 (- 1)]
   \<or> (\<exists>index. fst (lindexHandler json rc M key indexStr) = [Cmd_Type key, Cmd_LLen key, Cmd_LIndex key index])"
  by (cases rule: stage_cases[where key=key and rc=rc and indexStr=indexStr and M=M]) (simp_all add: lindexHandler_stages)

lemma order_llen:
  "Cmd_LLen key \<in> set (fst (lindexHandler json rc M key indexStr)) \<Longrightarrow>
   Type rc key = Inr ''list''"
  by (cases rule: stage_cases[where key=key and rc=rc and indexStr=indexStr and M=M])
     (simp_all add: lindexHandler_stages)

lemma order_invalid_index:
  "snd (lindexHandler json rc M key indexStr) = renderNotFound InvalidIndex \<Longrightarrow>
   fst (lindexHandler json rc M key indexStr) = [Cmd_Type key, Cmd_LLen key]
   \<and> Type rc key = Inr ''list'' \<and> (\<exists>llen. LLen rc key = Inr llen \<and> llen \<noteq> 0)"
  by (cases rule: stage_cases[where key=key and rc=rc and indexStr=indexStr and M=M])
     (simp_all add: lindexHandler_stages split: sum.splits if_splits)

lemma order_bounds:
  "snd (lindexHandler json rc M key indexStr) = renderNotFound (IndexOutOfBounds index llen) \<Longrightarrow>
   fst (lindexHandler json rc M key indexStr) = [Cmd_Type key, Cmd_LLen key]
   \<and> Type rc key = Inr ''list'' \<and> LLen rc key = Inr llen \<and> llen \<noteq> 0
   \<and> resolveIndex indexStr llen = Inr index"
  by (cases rule: stage_cases[where key=key and rc=rc and indexStr=indexStr and M=M])
     (auto simp add: lindexHandler_stages split: sum.splits if_splits)

lemma order_fetch:
  "length (fst (lindexHandler json rc M key indexStr)) = 3 \<Longrightarrow>
   (\<exists>llen index. Type rc key = Inr ''list'' \<and> LLen rc key = Inr llen \<and> llen \<noteq> 0
      \<and> resolveIndex indexStr llen = Inr index \<and> 0 \<le>s index \<and> index <s llen
      \<and> (fst (lindexHandler json rc M key indexStr) = [Cmd_Type key, Cmd_LLen key, Cmd_LRange key 0 (- 1)]
         \<or> fst (lindexHandler json rc M key indexStr) = [Cmd_Type key, Cmd_LLen key, Cmd_LIndex key index]))"
  by (cases rule: stage_cases[where key=key and rc=rc and indexStr=indexStr and M=M])
     (auto simp add: lindexHandler_stages)


lemma main_invalid: "snd (lindexHandler_main json rc key indexStr) = renderNotFound InvalidIndex \<Longrightarrow>
   fst (lindexHandler_main json rc key indexStr) = [] \<and> (\<exists>err. ParseInt indexStr = Inl err)"
  by (cases "ParseInt indexStr"; cases "Type rc key"; cases "LLen rc key")
     (simp_all add: lindexHandler_main_def split: sum.splits if_splits)

lemma main_llen:
  "Cmd_LLen key \<in> set (fst (lindexHandler_main json rc key indexStr)) \<Longrightarrow>
   Type rc key = Inr ''list''"
  by (cases "ParseInt indexStr"; cases "Type rc key"; cases "LLen rc key")
     (simp_all add: lindexHandler_main_def split: sum.splits if_splits)

lemma main_trace:
  "fst (lindexHandler_main json rc key indexStr) = []
   \<or> fst (lindexHandler_main json rc key indexStr) = [Cmd_Type key]
   \<or> fst (lindexHandler_main json rc key indexStr) = [Cmd_Type key, Cmd_LLen key]
   \<or> (\<exists>index. fst (lindexHandler_main json rc key indexStr)
        = [Cmd_Type key, Cmd_LLen key, Cmd_LIndex key index])"
  by (cases "ParseInt indexStr"; cases "Type rc key"; cases "LLen rc key")
     (simp_all add: lindexHandler_main_def split: sum.splits if_splits)

lemma main_bounds:
  "snd (lindexHandler_main json rc key indexStr) = renderNotFound (IndexOutOfBounds index llen) \<Longrightarrow>
   fst (lindexHandler_main json rc key indexStr) = [Cmd_Type key, Cmd_LLen key]
   \<and> ParseInt indexStr = Inr index \<and> Type rc key = Inr ''list''
   \<and> LLen rc key = Inr llen \<and> llen \<noteq> 0"
  by (cases "ParseInt indexStr"; cases "Type rc key"; cases "LLen rc key")
     (auto simp add: lindexHandler_main_def split: sum.splits if_splits)

lemma main_empty:
  "snd (lindexHandler_main json rc key indexStr) = renderNotFound (ListIsEmpty k) \<Longrightarrow>
   fst (lindexHandler_main json rc key indexStr) = [Cmd_Type key, Cmd_LLen key]
   \<and> (\<exists>index. ParseInt indexStr = Inr index) \<and> Type rc key = Inr ''list''
   \<and> LLen rc key = Inr 0"
  by (cases "ParseInt indexStr"; cases "Type rc key"; cases "LLen rc key")
     (auto simp add: lindexHandler_main_def split: sum.splits if_splits)

lemma order_empty:
  "snd (lindexHandler json rc M key indexStr) = renderNotFound (ListIsEmpty k) \<Longrightarrow>
   fst (lindexHandler json rc M key indexStr) = [Cmd_Type key, Cmd_LLen key]
   \<and> Type rc key = Inr ''list'' \<and> LLen rc key = Inr 0"
  by (cases rule: stage_cases[where key=key and rc=rc and indexStr=indexStr and M=M])
     (auto simp add: lindexHandler_stages split: sum.splits if_splits)

lemma main_store_after_parse: "fst (lindexHandler_main json rc key indexStr) \<noteq> [] \<Longrightarrow>
   (\<exists>index. ParseInt indexStr = Inr index)"
  by (cases "ParseInt indexStr") (simp_all add: lindexHandler_main_def split: sum.splits if_splits)

lemma main_fetch: "length (fst (lindexHandler_main json rc key indexStr)) = 3 \<Longrightarrow>
   (\<exists>llen index. ParseInt indexStr = Inr index \<and> Type rc key = Inr ''list'' \<and> LLen rc key = Inr llen \<and> llen \<noteq> 0
      \<and> 0 \<le>s index \<and> index <s llen
      \<and> fst (lindexHandler_main json rc key indexStr) = [Cmd_Type key, Cmd_LLen key, Cmd_LIndex key index])"
  by (cases "ParseInt indexStr"; cases "Type rc key"; cases "LLen rc key")
     (auto simp add: lindexHandler_main_def sless_total sle_total split: sum.splits if_splits)


lemma main_not_found_iff:
  assumes "key \<noteq> []" "Type rc key = Inr ''list''" "LLen rc key = Inr llen"
    "ParseInt indexStr = Inr index"
  shows "isNotFound (snd (lindexHandler_main json rc key indexStr))
         = (index <s 0 \<or> llen \<le>s index)"
  using assms sless_total[of index]
  by (auto simp add: lindexHandler_main_def isNotFound_def split: sum.splits)

lemma resolveIndex_parsed: "ParseInt indexStr = Inr index \<Longrightarrow> resolveIndex indexStr llen = Inr index"
  using ParseInt_nonempty[of indexStr index] by (simp add: resolveIndex_def)

lemma part_not_found_iff:
  assumes "key \<noteq> []" "Type rc key = Inr ''list''" "LLen rc key = Inr llen"
    "ParseInt indexStr = Inr index"
  shows "isNotFound (snd (lindexHandler json rc M key indexStr))
         = (index <s 0 \<or> llen \<le>s index)"
proof (cases "llen = 0")
  case True
  then have "lindexHandler json rc M key indexStr
      = ([Cmd_Type key, Cmd_LLen key], renderNotFound (ListIsEmpty key))"
    using assms(1-3) by (simp add: lindexHandler_empty)
  moreover have "index <s 0 \<or> llen \<le>s index"
    using True sless_total[of index] by auto
  ultimately show ?thesis by (simp add: isNotFound_def)
next
  case nz: False
  note r = resolveIndex_parsed[OF assms(4), of llen]
  show ?thesis
  proof (cases "index <s 0 \<or> llen \<le>s index")
    case True
    then show ?thesis
      using lindexHandler_out_of_bounds[OF assms(1-3) nz r True, of json M]
      by (simp add: isNotFound_def)
  next
    case False
    then have b: "0 \<le>s index" "index <s llen"
      using sless_total sle_total by blast+
    show ?thesis
    proof (cases "llen \<le>s M")
      case True
      show ?thesis
        using lindexHandler_preload[OF assms(1-3) nz r b True, of json] False
        by (simp add: isNotFound_def split: sum.splits)
    next
      case False
      then have big: "M <s llen" by (rule sle_total)
      show ?thesis
        using lindexHandler_single[OF assms(1-3) nz r b big, of json]
          \<open>\<not> (index <s 0 \<or> llen \<le>s index)\<close>
        by (simp add: isNotFound_def split: sum.splits)
    qed
  qed
qed

lemma store_mylist_simps:
  "Type store_mylist ''mylist'' = Inr ''list''"
  "Type store_mylist ''stringkey'' = Inr ''string''"
  "LLen store_mylist ''mylist'' = Inr 3"
  "LRange store_mylist ''mylist'' 0 (- 1) = Inr [''c'', ''b'', ''a'']"
  "LIndex store_mylist ''mylist'' 1 = Inr ''b''"
  "LIndex store_mylist ''mylist'' 2 = Inr ''a''"
  by (simp_all add: store_mylist_def)

lemma ParseInt_examples:
  "ParseInt ''1'' = Inr 1"
  "ParseInt ''5'' = Inr 5"
  "ParseInt ''abc'' = Inl ErrSyntax"
  by (simp_all add: ParseInt_unsigned_def ParseUint_def)

lemmas ParseInt_eval = ParseInt_unsigned_def ParseUint_def

lemma int64_examples:
  "(0::int64) \<le>s 3" "(0::int64) <s 3" "(0::int64) \<le>s 1" "(1::int64) <s 3"
  "(3::int64) \<le>s 3" "(2::int64) <s 3" "(3::int64) \<le>s 1000" "\<not> (3::int64) \<le>s 2"
  "(3::int64) \<le>s 5" "\<not> (1::int64) <s 0" "\<not> (3::int64) \<le>s 1" "\<not> (5::int64) <s 0"
  by (simp_all add: word_sle_eq word_sless_alt)

lemma prettyPrintJSON_excerpt_letters:
  "map (prettyPrintJSON json_excerpt) [''c'', ''b'', ''a''] = [''c'', ''b'', ''a'']"
  "prettyPrintJSON json_excerpt ''a'' = ''a''"
  "prettyPrintJSON json_excerpt ''b'' = ''b''"
  "prettyPrintJSON json_excerpt ''c'' = ''c''"
  by (simp_all add: prettyPrintJSON_def json_excerpt_def compact_ok_def indented_ok_def)

subsection \<open>Claims about navigation\<close>

text \<open>
  C1: for a key that names a list, whatever length \<open>llen\<close> the store reports
  for it (in particular every \<open>llen \<ge> 0\<close>), and for a request whose index
  parses to the integer \<open>index\<close>, the handler renders the not-found page
  exactly when \<open>index < 0\<close> or \<open>index \<ge> llen\<close>: an empty list (length 0) always
  does, an index in range never does. This holds for the handler of
  \<^verbatim>\<open>part_000\<close> and for the one of \<^verbatim>\<open>main.go\<close>.
\<close>

theorem lindexHandler_not_found_iff:
  assumes "key \<noteq> []" "Type rc key = Inr ''list''" "LLen rc key = Inr llen"
    "ParseInt indexStr = Inr index"
  shows "isNotFound (snd (lindexHandler json rc M key indexStr)) = (index <s 0 \<or> llen \<le>s index)
       \<and> isNotFound (snd (lindexHandler_main json rc key indexStr)) = (index <s 0 \<or> llen \<le>s index)"
  using part_not_found_iff[OF assms, of json M] main_not_found_iff[OF assms, of json] by simp

text \<open>The list \<^verbatim>\<open>mylist\<close> of length 3: index 5 is not found, index 1 is.\<close>

theorem lindexHandler_not_found_iff_witness:
  "Type store_mylist ''mylist'' = Inr ''list''
   \<and> LLen store_mylist ''mylist'' = Inr 3
   \<and> ParseInt ''5'' = Inr 5
   \<and> isNotFound (snd (lindexHandler json_excerpt store_mylist 1000 ''mylist'' ''5''))
   \<and> isNotFound (snd (lindexHandler_main json_excerpt store_mylist ''mylist'' ''5''))
   \<and> ParseInt ''1'' = Inr 1
   \<and> \<not> isNotFound (snd (lindexHandler json_excerpt store_mylist 1000 ''mylist'' ''1''))
   \<and> \<not> isNotFound (snd (lindexHandler_main json_excerpt store_mylist ''mylist'' ''1''))"
proof -
  have k: "''mylist'' \<noteq> []" by simp
  note t = store_mylist_simps(1) and n = store_mylist_simps(3)
  have five: "((5::int64) <s 0 \<or> (3::int64) \<le>s 5)" by (simp add: int64_examples)
  have one: "\<not> ((1::int64) <s 0 \<or> (3::int64) \<le>s 1)" by (simp add: int64_examples)
  show ?thesis
    using lindexHandler_not_found_iff [OF k t n ParseInt_examples(2), of json_excerpt 1000]
      lindexHandler_not_found_iff [OF k t n ParseInt_examples(1), of json_excerpt 1000]
      five one
    by (simp add: store_mylist_simps ParseInt_eval)
qed

text \<open>
  C2 (the handler of \<^verbatim>\<open>part_000\<close>; the one of \<^verbatim>\<open>main.go\<close> has no preload): for a
  non-empty list of length \<open>llen\<close> and a resolved index within bounds, the
  handler sends LRANGE key 0 -1 and renders all formatted values exactly when
  \<open>llen \<le> maxPreloadSize\<close>, and sends LINDEX key index and renders one
  formatted value exactly when \<open>llen > maxPreloadSize\<close>. At
  \<open>llen = maxPreloadSize\<close> it preloads.
\<close>

theorem lindexHandler_strategy:
  assumes "key \<noteq> []" "Type rc key = Inr ''list''" "LLen rc key = Inr llen" "llen \<noteq> 0"
    "resolveIndex indexStr llen = Inr index" "0 \<le>s index" "index <s llen"
  shows "(llen \<le>s M \<longrightarrow>
            lindexHandler json rc M key indexStr =
              ([Cmd_Type key, Cmd_LLen key, Cmd_LRange key 0 (- 1)],
               case LRange rc key 0 (- 1) of
                 Inl err \<Rightarrow> renderError (ErrorGettingListElements err)
               | Inr allValues \<Rightarrow>
                   renderResultWithPreload key index llen (map (prettyPrintJSON json) allValues)))
       \<and> (M <s llen \<longrightarrow>
            lindexHandler json rc M key indexStr =
              ([Cmd_Type key, Cmd_LLen key, Cmd_LIndex key index],
               case LIndex rc key index of
                 Inl err \<Rightarrow> renderError (ErrorGettingElement err)
               | Inr val \<Rightarrow> renderResultWithoutPreload key index llen (prettyPrintJSON json val)))
       \<and> (Cmd_LRange key 0 (- 1) \<in> set (fst (lindexHandler json rc M key indexStr))) = (llen \<le>s M)
       \<and> (Cmd_LIndex key index \<in> set (fst (lindexHandler json rc M key indexStr))) = (M <s llen)
       \<and> (llen = M \<longrightarrow> fst (lindexHandler json rc M key indexStr)
             = [Cmd_Type key, Cmd_LLen key, Cmd_LRange key 0 (- 1)])"
proof (cases "llen \<le>s M")
  case True
  then have nb: "\<not> M <s llen" by (simp add: word_sle_eq word_sless_alt)
  show ?thesis
    using lindexHandler_preload[OF assms True, of json] True nb by simp
next
  case False
  then have big: "M <s llen" by (rule sle_total)
  have ne: "llen \<noteq> M" using False by auto
  show ?thesis
    using lindexHandler_single[OF assms big, of json] False big ne by simp
qed

theorem lindexHandler_strategy_witness:
  "resolveIndex ''1'' 3 = Inr 1
   \<and> (3::int64) \<le>s 3
   \<and> lindexHandler json_excerpt store_mylist 3 ''mylist'' ''1'' =
       ([Cmd_Type ''mylist'', Cmd_LLen ''mylist'', Cmd_LRange ''mylist'' 0 (- 1)],
        renderResultWithPreload ''mylist'' 1 3 [''c'', ''b'', ''a''])
   \<and> (2::int64) <s 3
   \<and> lindexHandler json_excerpt store_mylist 2 ''mylist'' ''1'' =
       ([Cmd_Type ''mylist'', Cmd_LLen ''mylist'', Cmd_LIndex ''mylist'' 1],
        renderResultWithoutPreload ''mylist'' 1 3 ''b'')"
proof -
  have k: "''mylist'' \<noteq> []" by simp
  have nz: "(3::int64) \<noteq> 0" by simp
  have r: "resolveIndex ''1'' 3 = Inr 1"
    by (simp add: resolveIndex_def ParseInt_eval)
  have b: "(0::int64) \<le>s 1" "(1::int64) <s 3" by (rule int64_examples)+
  have le: "(3::int64) \<le>s 3" and lt: "(2::int64) <s 3" by (rule int64_examples)+
  note t = store_mylist_simps(1) and n = store_mylist_simps(3)
  show ?thesis
    using lindexHandler_strategy [OF k t n nz r b, of 3 json_excerpt]
      lindexHandler_strategy [OF k t n nz r b, of 2 json_excerpt] r le lt
    by (simp add: store_mylist_simps prettyPrintJSON_excerpt_letters)
qed

text \<open>
  C3, as the code has it. In \<^verbatim>\<open>part_000\<close>, for a list whose reported length
  \<open>llen\<close> is positive, a request without index resolves to \<open>llen - 1\<close> (no
  wrap-around: its signed value is one less than that of \<open>llen\<close>), and the
  handler goes on to fetch with that index. In \<^verbatim>\<open>main.go\<close> the index is
  required: a request without index is answered by the not-found page for an
  invalid index, before the store is asked anything.
\<close>

theorem lindexHandler_default_index:
  assumes "key \<noteq> []" "Type rc key = Inr ''list''" "LLen rc key = Inr llen" "0 <s llen"
  shows "resolveIndex [] llen = Inr (llen - 1)
       \<and> sint (llen - 1) = sint llen - 1
       \<and> lindexHandler json rc M key [] =
           (if llen \<le>s M then
              ([Cmd_Type key, Cmd_LLen key, Cmd_LRange key 0 (- 1)],
               case LRange rc key 0 (- 1) of
                 Inl err \<Rightarrow> renderError (ErrorGettingListElements err)
               | Inr allValues \<Rightarrow>
                   renderResultWithPreload key (llen - 1) llen
                     (map (prettyPrintJSON json) allValues))
            else
              ([Cmd_Type key, Cmd_LLen key, Cmd_LIndex key (llen - 1)],
               case LIndex rc key (llen - 1) of
                 Inl err \<Rightarrow> renderError (ErrorGettingElement err)
               | Inr val \<Rightarrow>
                   renderResultWithoutPreload key (llen - 1) llen (prettyPrintJSON json val)))
       \<and> lindexHandler_main json rc key [] = ([], renderNotFound InvalidIndex)"
proof -
  have pos: "0 < sint llen" using assms(4) by (simp add: word_sless_alt)
  have nz: "llen \<noteq> 0" using pos by auto
  have s: "sint (llen - 1) = sint llen - 1"
    using pos sint_lt[of llen]
    by (simp add: sint_word_ariths signed_take_bit_int_eq_self)
  have r: "resolveIndex [] llen = Inr (llen - 1)" by (simp add: resolveIndex_def)
  have b: "0 \<le>s llen - 1" "llen - 1 <s llen"
    using pos s by (simp_all add: word_sle_eq word_sless_alt)
  have h: "lindexHandler json rc M key [] =
           (if llen \<le>s M then
              ([Cmd_Type key, Cmd_LLen key, Cmd_LRange key 0 (- 1)],
               case LRange rc key 0 (- 1) of
                 Inl err \<Rightarrow> renderError (ErrorGettingListElements err)
               | Inr allValues \<Rightarrow>
                   renderResultWithPreload key (llen - 1) llen
                     (map (prettyPrintJSON json) allValues))
            else
              ([Cmd_Type key, Cmd_LLen key, Cmd_LIndex key (llen - 1)],
               case LIndex rc key (llen - 1) of
                 Inl err \<Rightarrow> renderError (ErrorGettingElement err)
               | Inr val \<Rightarrow>
                   renderResultWithoutPreload key (llen - 1) llen (prettyPrintJSON json val)))"
  proof (cases "llen \<le>s M")
    case True
    then show ?thesis
      using lindexHandler_preload[OF assms(1-3) nz r b True, of json] by simp
  next
    case False
    then have "M <s llen" by (rule sle_total)
    then show ?thesis
      using lindexHandler_single[OF assms(1-3) nz r b, of M json] False by simp
  qed
  have m: "lindexHandler_main json rc key [] = ([], renderNotFound InvalidIndex)"
    using assms(1) by (simp add: lindexHandler_main_def)
  show ?thesis using r s h m by simp
qed

theorem lindexHandler_default_index_witness:
  "Type store_mylist ''mylist'' = Inr ''list''
   \<and> LLen store_mylist ''mylist'' = Inr 3
   \<and> (0::int64) <s 3
   \<and> lindexHandler json_excerpt store_mylist 1000 ''mylist'' [] =
       ([Cmd_Type ''mylist'', Cmd_LLen ''mylist'', Cmd_LRange ''mylist'' 0 (- 1)],
        renderResultWithPreload ''mylist'' 2 3 [''c'', ''b'', ''a''])
   \<and> lindexHandler json_excerpt store_mylist 2 ''mylist'' [] =
       ([Cmd_Type ''mylist'', Cmd_LLen ''mylist'', Cmd_LIndex ''mylist'' 2],
        renderResultWithoutPreload ''mylist'' 2 3 ''a'')
   \<and> lindexHandler_main json_excerpt store_mylist ''mylist'' [] = ([], renderNotFound InvalidIndex)"
proof -
  have k: "''mylist'' \<noteq> []" by simp
  have p: "(0::int64) <s 3" by (rule int64_examples)
  have le: "(3::int64) \<le>s 1000" and gt: "\<not> (3::int64) \<le>s 2" by (rule int64_examples)+
  note t = store_mylist_simps(1) and n = store_mylist_simps(3)
  show ?thesis
    using lindexHandler_default_index [OF k t n p, of json_excerpt 1000]
      lindexHandler_default_index [OF k t n p, of json_excerpt 2] p le gt
    by (simp add: store_mylist_simps prettyPrintJSON_excerpt_letters)
qed

text \<open>The claim as first stated fails on \<^verbatim>\<open>main.go\<close>: the list \<^verbatim>\<open>mylist\<close> has
  three elements, and a request for it without index is not resolved to
  index 2 but rejected.\<close>

theorem lindexHandler_main_no_default_index:
  "Type store_mylist ''mylist'' = Inr ''list''
   \<and> LLen store_mylist ''mylist'' = Inr 3
   \<and> lindexHandler_main json_excerpt store_mylist ''mylist'' [] = ([], renderNotFound InvalidIndex)"
  by (simp add: store_mylist_simps lindexHandler_main_def)

text \<open>
  C8, as the code has it. In \<^verbatim>\<open>part_000\<close> the commands sent are a prefix of
  TYPE, LLEN, fetch (LRANGE or LINDEX), in this order; LLEN is sent only
  after TYPE answered \<^verbatim>\<open>list\<close>; an empty list is reported only after LLEN
  answered 0; an invalid index is reported after TYPE answered \<^verbatim>\<open>list\<close> and
  LLEN answered a length other than 0, and then whenever the index does not
  parse; an index out of bounds is reported only for the index the request
  resolved to; and a fetch is sent only after the type check, the length
  check, the index resolution and the bounds check have all passed. In
  \<^verbatim>\<open>main.go\<close> the index is parsed first: for every non-empty key an index
  that does not parse is reported before any command is sent, and the store
  is asked only for a request whose index parsed. The rest of the order is
  the same: the commands sent are a prefix of TYPE, LLEN, LINDEX; LLEN is
  sent only after TYPE answered \<^verbatim>\<open>list\<close>; an empty list and an index out of
  bounds are reported after TYPE and LLEN, for the length LLEN answered; and
  LINDEX is sent only after all checks have passed, with the parsed index.
\<close>

theorem lindexHandler_order:
  "(fst (lindexHandler json rc M key indexStr) = []
    \<or> fst (lindexHandler json rc M key indexStr) = [Cmd_Type key]
    \<or> fst (lindexHandler json rc M key indexStr) = [Cmd_Type key, Cmd_LLen key]
    \<or> fst (lindexHandler json rc M key indexStr)
        = [Cmd_Type key, Cmd_LLen key, Cmd_LRange key 0 (- 1)]
    \<or> (\<exists>index. fst (lindexHandler json rc M key indexStr)
        = [Cmd_Type key, Cmd_LLen key, Cmd_LIndex key index]))
   \<and> (Cmd_LLen key \<in> set (fst (lindexHandler json rc M key indexStr)) \<longrightarrow>
        Type rc key = Inr ''list'')
   \<and> (snd (lindexHandler json rc M key indexStr) = renderNotFound InvalidIndex \<longrightarrow>
        fst (lindexHandler json rc M key indexStr) = [Cmd_Type key, Cmd_LLen key]
        \<and> Type rc key = Inr ''list'' \<and> (\<exists>llen. LLen rc key = Inr llen \<and> llen \<noteq> 0))
   \<and> (snd (lindexHandler json rc M key indexStr) = renderNotFound (IndexOutOfBounds i l) \<longrightarrow>
        fst (lindexHandler json rc M key indexStr) = [Cmd_Type key, Cmd_LLen key]
        \<and> Type rc key = Inr ''list'' \<and> LLen rc key = Inr l \<and> l \<noteq> 0
        \<and> resolveIndex indexStr l = Inr i)
   \<and> (length (fst (lindexHandler json rc M key indexStr)) = 3 \<longrightarrow>
        (\<exists>llen index. Type rc key = Inr ''list'' \<and> LLen rc key = Inr llen \<and> llen \<noteq> 0
           \<and> resolveIndex indexStr llen = Inr index \<and> 0 \<le>s index \<and> index <s llen
           \<and> (fst (lindexHandler json rc M key indexStr)
                 = [Cmd_Type key, Cmd_LLen key, Cmd_LRange key 0 (- 1)]
               \<or> fst (lindexHandler json rc M key indexStr)
                 = [Cmd_Type key, Cmd_LLen key, Cmd_LIndex key index])))
   \<and> (snd (lindexHandler json rc M key indexStr) = renderNotFound (ListIsEmpty k) \<longrightarrow>
        fst (lindexHandler json rc M key indexStr) = [Cmd_Type key, Cmd_LLen key]
        \<and> Type rc key = Inr ''list'' \<and> LLen rc key = Inr 0)
   \<and> (key \<noteq> [] \<and> Type rc key = Inr ''list'' \<and> LLen rc key = Inr n \<and> n \<noteq> 0
        \<and> indexStr \<noteq> [] \<and> ParseInt indexStr = Inl e \<longrightarrow>
        lindexHandler json rc M key indexStr
          = ([Cmd_Type key, Cmd_LLen key], renderNotFound InvalidIndex))
   \<and> (fst (lindexHandler_main json rc key indexStr) = []
        \<or> fst (lindexHandler_main json rc key indexStr) = [Cmd_Type key]
        \<or> fst (lindexHandler_main json rc key indexStr) = [Cmd_Type key, Cmd_LLen key]
        \<or> (\<exists>index. fst (lindexHandler_main json rc key indexStr)
             = [Cmd_Type key, Cmd_LLen key, Cmd_LIndex key index]))
   \<and> (key \<noteq> [] \<and> ParseInt indexStr = Inl e \<longrightarrow>
        lindexHandler_main json rc key indexStr = ([], renderNotFound InvalidIndex))
   \<and> (snd (lindexHandler_main json rc key indexStr) = renderNotFound InvalidIndex \<longrightarrow>
        fst (lindexHandler_main json rc key indexStr) = []
        \<and> (\<exists>err. ParseInt indexStr = Inl err))
   \<and> (fst (lindexHandler_main json rc key indexStr) \<noteq> [] \<longrightarrow>
        (\<exists>index. ParseInt indexStr = Inr index))
   \<and> (Cmd_LLen key \<in> set (fst (lindexHandler_main json rc key indexStr)) \<longrightarrow>
        Type rc key = Inr ''list'')
   \<and> (snd (lindexHandler_main json rc key indexStr) = renderNotFound (ListIsEmpty k) \<longrightarrow>
        fst (lindexHandler_main json rc key indexStr) = [Cmd_Type key, Cmd_LLen key]
        \<and> (\<exists>index. ParseInt indexStr = Inr index) \<and> Type rc key = Inr ''list''
        \<and> LLen rc key = Inr 0)
   \<and> (snd (lindexHandler_main json rc key indexStr) = renderNotFound (IndexOutOfBounds i l) \<longrightarrow>
        fst (lindexHandler_main json rc key indexStr) = [Cmd_Type key, Cmd_LLen key]
        \<and> ParseInt indexStr = Inr i \<and> Type rc key = Inr ''list''
        \<and> LLen rc key = Inr l \<and> l \<noteq> 0)
   \<and> (length (fst (lindexHandler_main json rc key indexStr)) = 3 \<longrightarrow>
        (\<exists>llen index. ParseInt indexStr = Inr index \<and> Type rc key = Inr ''list''
           \<and> LLen rc key = Inr llen \<and> llen \<noteq> 0 \<and> 0 \<le>s index \<and> index <s llen
           \<and> fst (lindexHandler_main json rc key indexStr)
                = [Cmd_Type key, Cmd_LLen key, Cmd_LIndex key index]))"
  apply (rule conjI, rule order_trace)
  apply (rule conjI, rule impI, erule order_llen)
  apply (rule conjI, rule impI, erule order_invalid_index)
  apply (rule conjI, rule impI, erule order_bounds)
  apply (rule conjI, rule impI, erule order_fetch)
  apply (rule conjI, rule impI, erule order_empty)
  apply (rule conjI, rule impI, simp add: lindexHandler_invalid_index)
  apply (rule conjI, rule main_trace)
  apply (rule conjI, rule impI, simp add: lindexHandler_main_def)
  apply (rule conjI, rule impI, erule main_invalid)
  apply (rule conjI, rule impI, erule main_store_after_parse)
  apply (rule conjI, rule impI, erule main_llen)
  apply (rule conjI, rule impI, erule main_empty)
  apply (rule conjI, rule impI, erule main_bounds)
  apply (rule impI, erule main_fetch)
  done

theorem lindexHandler_order_witness:
  "lindexHandler json_excerpt store_mylist 1000 ''mylist'' ''abc''
     = ([Cmd_Type ''mylist'', Cmd_LLen ''mylist''], renderNotFound InvalidIndex)
   \<and> Type store_mylist ''mylist'' = Inr ''list''
   \<and> lindexHandler json_excerpt store_mylist 1000 ''mylist'' ''5''
     = ([Cmd_Type ''mylist'', Cmd_LLen ''mylist''], renderNotFound (IndexOutOfBounds 5 3))
   \<and> resolveIndex ''5'' 3 = Inr 5
   \<and> length (fst (lindexHandler json_excerpt store_mylist 1000 ''mylist'' ''1'')) = 3
   \<and> (\<exists>llen index. LLen store_mylist ''mylist'' = Inr llen \<and> llen \<noteq> 0
         \<and> resolveIndex ''1'' llen = Inr index \<and> 0 \<le>s index \<and> index <s llen)
   \<and> lindexHandler_main json_excerpt store_mylist ''mylist'' ''abc''
     = ([], renderNotFound InvalidIndex)
   \<and> (\<exists>err. ParseInt ''abc'' = Inl err)
   \<and> fst (lindexHandler_main json_excerpt store_mylist ''mylist'' ''1'')
     = [Cmd_Type ''mylist'', Cmd_LLen ''mylist'', Cmd_LIndex ''mylist'' 1]
   \<and> (\<exists>llen index. ParseInt ''1'' = Inr index \<and> LLen store_mylist ''mylist'' = Inr llen
         \<and> 0 \<le>s index \<and> index <s llen)
   \<and> lindexHandler_main json_excerpt store_mylist ''mylist'' ''5''
     = ([Cmd_Type ''mylist'', Cmd_LLen ''mylist''], renderNotFound (IndexOutOfBounds 5 3))
   \<and> ParseInt ''5'' = Inr 5"
proof -
  have a: "lindexHandler json_excerpt store_mylist 1000 ''mylist'' ''abc''
     = ([Cmd_Type ''mylist'', Cmd_LLen ''mylist''], renderNotFound InvalidIndex)"
    by (simp add: lindexHandler_def store_mylist_simps ParseInt_eval int64_examples)
  have b: "lindexHandler json_excerpt store_mylist 1000 ''mylist'' ''5''
     = ([Cmd_Type ''mylist'', Cmd_LLen ''mylist''], renderNotFound (IndexOutOfBounds 5 3))"
    by (simp add: lindexHandler_def store_mylist_simps ParseInt_eval int64_examples)
  have c: "lindexHandler json_excerpt store_mylist 1000 ''mylist'' ''1''
     = ([Cmd_Type ''mylist'', Cmd_LLen ''mylist'', Cmd_LRange ''mylist'' 0 (- 1)],
        renderResultWithPreload ''mylist'' 1 3 [''c'', ''b'', ''a''])"
    by (simp add: lindexHandler_def store_mylist_simps ParseInt_eval int64_examples
        prettyPrintJSON_excerpt_letters)
  have d: "lindexHandler_main json_excerpt store_mylist ''mylist'' ''abc''
     = ([], renderNotFound InvalidIndex)"
    by (simp add: lindexHandler_main_def ParseInt_eval)
  have e: "lindexHandler_main json_excerpt store_mylist ''mylist'' ''1''
     = ([Cmd_Type ''mylist'', Cmd_LLen ''mylist'', Cmd_LIndex ''mylist'' 1],
        renderResult ''mylist'' 1 3 ''b'')"
    by (simp add: lindexHandler_main_def store_mylist_simps ParseInt_eval int64_examples
        prettyPrintJSON_excerpt_letters)
  note abc = lindexHandler_order [of json_excerpt store_mylist 1000 "''mylist''" "''abc''" 0 0 "[]" 3
      ErrSyntax]
  note five = lindexHandler_order [of json_excerpt store_mylist 1000 "''mylist''" "''5''" 5 3 "[]" 3
      ErrSyntax]
  note one = lindexHandler_order [of json_excerpt store_mylist 1000 "''mylist''" "''1''" 0 0 "[]" 3
      ErrSyntax]
  have t: "Type store_mylist ''mylist'' = Inr ''list''"
    using abc [THEN conjunct2, THEN conjunct1] a by simp
  have r5: "resolveIndex ''5'' 3 = Inr 5"
    using five [THEN conjunct2, THEN conjunct2, THEN conjunct2, THEN conjunct1] b by simp
  have f: "\<exists>llen index. LLen store_mylist ''mylist'' = Inr llen \<and> llen \<noteq> 0
         \<and> resolveIndex ''1'' llen = Inr index \<and> 0 \<le>s index \<and> index <s llen"
    using one [THEN conjunct2, THEN conjunct2, THEN conjunct2, THEN conjunct2, THEN conjunct1] c by auto
  have g: "\<exists>err. ParseInt ''abc'' = Inl err"
    using abc [THEN conjunct2, THEN conjunct2, THEN conjunct2, THEN conjunct2, THEN conjunct2, THEN conjunct2, THEN conjunct2, THEN conjunct2, THEN conjunct2, THEN conjunct1] d by simp
  have h: "\<exists>llen index. ParseInt ''1'' = Inr index \<and> LLen store_mylist ''mylist'' = Inr llen
         \<and> 0 \<le>s index \<and> index <s llen"
    using one [THEN conjunct2, THEN conjunct2, THEN conjunct2, THEN conjunct2, THEN conjunct2, THEN conjunct2, THEN conjunct2, THEN conjunct2, THEN conjunct2, THEN conjunct2, THEN conjunct2, THEN conjunct2, THEN conjunct2, THEN conjunct2] e by auto
  have m5: "lindexHandler_main json_excerpt store_mylist ''mylist'' ''5''
     = ([Cmd_Type ''mylist'', Cmd_LLen ''mylist''], renderNotFound (IndexOutOfBounds 5 3))"
    by (simp add: lindexHandler_main_def store_mylist_simps ParseInt_eval int64_examples)
  have p5: "ParseInt ''5'' = Inr 5"
    using five [THEN conjunct2, THEN conjunct2, THEN conjunct2, THEN conjunct2, THEN conjunct2, THEN conjunct2, THEN conjunct2, THEN conjunct2, THEN conjunct2, THEN conjunct2, THEN conjunct2, THEN conjunct2, THEN conjunct2, THEN conjunct1] m5 by simp
  show ?thesis using a b c d e t r5 f g h m5 p5 by simp
qed

text \<open>The claim as first stated fails on \<^verbatim>\<open>main.go\<close>: for the key \<^verbatim>\<open>stringkey\<close>,
  which is not a list, and the index \<^verbatim>\<open>abc\<close>, the parse failure is reported
  and no command has been sent; \<^verbatim>\<open>part_000\<close> sends TYPE and reports the type.\<close>

theorem lindexHandler_main_parses_first:
  "Type store_mylist ''stringkey'' = Inr ''string''
   \<and> lindexHandler_main json_excerpt store_mylist ''stringkey'' ''abc''
       = ([], renderNotFound InvalidIndex)
   \<and> lindexHandler json_excerpt store_mylist 1000 ''stringkey'' ''abc''
       = ([Cmd_Type ''stringkey''], renderNotFound (KeyIsNotAList ''stringkey'' ''string''))"
  by (simp add: store_mylist_simps lindexHandler_main_def lindexHandler_def ParseInt_eval)

section \<open>The key discovery scan\<close>

subsection \<open>The passes over one batch\<close>



































subsection \<open>Claims about discovery\<close>






end
